theory Spec2Isabelle
  imports Complex_Main "HOL-Library.Char_ord" "HOL-Library.List_Lexorder"
begin

section \<open>Provisioning of global secondary indexes: \<open>dynamic_dynamodb/core/gsi.py\<close>\<close>

text \<open>
  The module is Python 2 (boto). Its functions talk to collaborators that are imported
  from other modules: \<open>gsi_stats\<close>, \<open>dynamodb\<close>, \<open>calculators\<close>, \<open>circuit_breaker\<close>,
  the configuration (\<open>get_global_option\<close>, \<open>get_table_option\<close>), the logger and the
  clock. The collaborators are the fields of an environment \<open>env\<close>; what a function does
  to them is a trace of events (the requests it sends and the lines it logs), in order.
  An exception that leaves a function is a value of \<open>error\<close>.
\<close>

subsection \<open>Values, log lines, requests, exceptions\<close>

text \<open>Positional arguments of a call: the strings and integers the module passes.\<close>

datatype pyval = PyStr string | PyInt int

datatype level = DEBUG | INFO | WARNING | ERROR

text \<open>Every request to a collaborator outside the process.\<close>

datatype request =
    TableGsis string
  | GetProvisionedReadUnits string string
  | GetProvisionedWriteUnits string string
  | GetConsumedReadUnitsPercent string string
  | GetConsumedWriteUnitsPercent string string
  | GetTable string
  | GetGsiStatus string
  | TableUpdate string int int
  | CircuitBreakerIsOpen

text \<open>
  A log line keeps the format string of the source and the arguments of \<open>format\<close>,
  unformatted.
\<close>

datatype event = Log level string "pyval list" | Request request

datatype error = TypeError string | IndexError

text \<open>What a procedure leaves behind: its trace, and the exception it raised, if any.\<close>

type_synonym outcome = "event list \<times> error option"

subsection \<open>Configuration and collaborators\<close>

text \<open>The options \<open>get_table_option(key_name, ...)\<close> is asked for, by name.\<close>

record table_options =
  allow_scaling_down_reads_on_0_percent :: bool
  allow_scaling_down_writes_on_0_percent :: bool
  gsi_reads_upper_threshold :: int
  gsi_reads_lower_threshold :: int
  gsi_writes_upper_threshold :: int
  gsi_writes_lower_threshold :: int
  gsi_increase_reads_unit :: string
  gsi_increase_reads_with :: int
  gsi_decrease_reads_unit :: string
  gsi_decrease_reads_with :: int
  gsi_increase_writes_unit :: string
  gsi_increase_writes_with :: int
  gsi_decrease_writes_unit :: string
  gsi_decrease_writes_with :: int
  gsi_max_provisioned_reads :: int
  gsi_max_provisioned_writes :: int
  gsi_min_provisioned_reads :: int
  gsi_min_provisioned_writes :: int
  maintenance_windows :: string
  always_decrease_rw_together :: bool

text \<open>
  The functions of \<open>dynamic_dynamodb.calculators.gsi\<close>, called as
  \<open>f(current_units, amount, key_name, table_name, index_name)\<close>. The module is not part
  of the sources at hand, so the eight functions are parameters.
\<close>

type_synonym calculator = "int \<Rightarrow> int \<Rightarrow> string \<Rightarrow> string \<Rightarrow> string \<Rightarrow> int"

record calculators =
  increase_reads_in_percent :: calculator
  increase_reads_in_units :: calculator
  decrease_reads_in_percent :: calculator
  decrease_reads_in_units :: calculator
  increase_writes_in_percent :: calculator
  increase_writes_in_units :: calculator
  decrease_writes_in_percent :: calculator
  decrease_writes_in_units :: calculator

text \<open>The body of a \<open>DynamoDBResponseError\<close>: \<open>error.body['__type']\<close>, \<open>error.body['message']\<close>.\<close>

record error_body =
  body_type :: string
  body_message :: string

datatype response = Success | DynamoDBResponseError error_body

text \<open>
  A boto table: \<open>table.throughput['read']\<close>, \<open>table.throughput['write']\<close> (the capacity the
  table object last learnt from the remote system) and the answer of
  \<open>table.update(throughput={'read': r, 'write': w})\<close>.
\<close>

record table =
  throughput_read :: int
  throughput_write :: int
  update :: "int \<Rightarrow> int \<Rightarrow> response"

text \<open>An entry of \<open>dynamodb.table_gsis(table_name)\<close>: \<open>gsi[u'IndexName']\<close>.\<close>

record gsi =
  IndexName :: string

text \<open>
  The environment of one run. \<open>get_table\<close> is \<open>None\<close> where \<open>dynamodb.get_table\<close> raises
  \<open>DynamoDBResponseError\<close>; \<open>utcnow\<close> is \<open>datetime.datetime.utcnow().strftime('%H%M')\<close>;
  \<open>circuit_breaker_url\<close> and \<open>dry_run\<close> are the two global options the module reads; the
  percentages are reals, compared with the integer thresholds of the configuration.
\<close>

record env =
  circuit_breaker_url :: string
  dry_run :: bool
  circuit_breaker_is_open :: bool
  table_gsis :: "string \<Rightarrow> gsi list"
  get_provisioned_read_units :: "string \<Rightarrow> string \<Rightarrow> int"
  get_provisioned_write_units :: "string \<Rightarrow> string \<Rightarrow> int"
  get_consumed_read_units_percent :: "string \<Rightarrow> string \<Rightarrow> real"
  get_consumed_write_units_percent :: "string \<Rightarrow> string \<Rightarrow> real"
  get_table_option :: "string \<Rightarrow> table_options"
  calc :: calculators
  get_table :: "string \<Rightarrow> table option"
  get_gsi_status :: "string \<Rightarrow> string"
  utcnow :: string

subsection \<open>The decision for one dimension\<close>

text \<open>
  \<open>__ensure_provisioning_reads\<close>, lines 90 to 148: the two fetches and the chain of
  \<open>if\<close>/\<open>elif\<close> on the consumed percentage. The result is the log of the chain, the flag
  \<open>update_needed\<close> and \<open>updated_read_units\<close> as they stand before the ceiling.
\<close>

definition reads_threshold_steps ::
  "env \<Rightarrow> string \<Rightarrow> string \<Rightarrow> string \<Rightarrow> event list \<times> bool \<times> int" where
  "reads_threshold_steps e table_name index_name key_name =
    (let opts = get_table_option e key_name;
         updated_read_units = get_provisioned_read_units e table_name index_name;
         consumed_read_units_percent = get_consumed_read_units_percent e table_name index_name
     in
       if consumed_read_units_percent = 0 \<and> \<not> allow_scaling_down_reads_on_0_percent opts then
         ([Log INFO ''{0} - GSI: {1} - Scaling down reads is not done when usage is at 0%''
             [PyStr table_name, PyStr index_name]],
          False, updated_read_units)
       else if consumed_read_units_percent \<ge> of_int (gsi_reads_upper_threshold opts) then
         (let updated_provisioning =
                (if gsi_increase_reads_unit opts = ''percent'' then
                   increase_reads_in_percent (calc e) updated_read_units
                     (gsi_increase_reads_with opts) key_name table_name index_name
                 else
                   increase_reads_in_units (calc e) updated_read_units
                     (gsi_increase_reads_with opts) key_name table_name index_name)
          in if updated_read_units \<noteq> updated_provisioning
             then ([], True, updated_provisioning)
             else ([], False, updated_read_units))
       else if consumed_read_units_percent \<le> of_int (gsi_reads_lower_threshold opts) then
         (let updated_provisioning =
                (if gsi_decrease_reads_unit opts = ''percent'' then
                   decrease_reads_in_percent (calc e) updated_read_units
                     (gsi_decrease_reads_with opts) key_name table_name index_name
                 else
                   decrease_reads_in_units (calc e) updated_read_units
                     (gsi_decrease_reads_with opts) key_name table_name index_name)
          in if updated_read_units \<noteq> updated_provisioning
             then ([], True, updated_provisioning)
             else ([], False, updated_read_units))
       else ([], False, updated_read_units))"

text \<open>
  \<open>__ensure_provisioning_reads\<close> as a whole: the steps above, then the ceiling of lines
  150 to 159. It returns \<open>(update_needed, int(updated_read_units))\<close>; the units are
  integers already, so \<open>int\<close> changes nothing.
\<close>

definition ensure_provisioning_reads ::
  "env \<Rightarrow> string \<Rightarrow> string \<Rightarrow> string \<Rightarrow> event list \<times> bool \<times> int" where
  "ensure_provisioning_reads e table_name index_name key_name =
    (let fetches = [Request (GetProvisionedReadUnits table_name index_name),
                    Request (GetConsumedReadUnitsPercent table_name index_name)];
         (steps_log, update_needed, updated_read_units) =
            reads_threshold_steps e table_name index_name key_name;
         maximum = gsi_max_provisioned_reads (get_table_option e key_name)
     in
       if updated_read_units > maximum then
         (fetches @ steps_log @
            [Log INFO ''Will not increase writes over gsi-max-provisioned-reads limit ({0} writes)''
               [PyInt maximum]],
          True, maximum)
       else (fetches @ steps_log, update_needed, updated_read_units))"

text \<open>\<open>__ensure_provisioning_writes\<close>, lines 173 to 232.\<close>

definition writes_threshold_steps ::
  "env \<Rightarrow> string \<Rightarrow> string \<Rightarrow> string \<Rightarrow> event list \<times> bool \<times> int" where
  "writes_threshold_steps e table_name index_name key_name =
    (let opts = get_table_option e key_name;
         updated_write_units = get_provisioned_write_units e table_name index_name;
         consumed_write_units_percent = get_consumed_write_units_percent e table_name index_name
     in
       if consumed_write_units_percent = 0 \<and> \<not> allow_scaling_down_writes_on_0_percent opts then
         ([Log INFO ''{0} - GSI: {1} - Scaling down writes is not done when usage is at 0%''
             [PyStr table_name, PyStr index_name]],
          False, updated_write_units)
       else if consumed_write_units_percent \<ge> of_int (gsi_writes_upper_threshold opts) then
         (let updated_provisioning =
                (if gsi_increase_writes_unit opts = ''percent'' then
                   increase_writes_in_percent (calc e) updated_write_units
                     (gsi_increase_writes_with opts) key_name table_name index_name
                 else
                   increase_writes_in_units (calc e) updated_write_units
                     (gsi_increase_writes_with opts) key_name table_name index_name)
          in if updated_write_units \<noteq> updated_provisioning
             then ([], True, updated_provisioning)
             else ([], False, updated_write_units))
       else if consumed_write_units_percent \<le> of_int (gsi_writes_lower_threshold opts) then
         (let updated_provisioning =
                (if gsi_decrease_writes_unit opts = ''percent'' then
                   decrease_writes_in_percent (calc e) updated_write_units
                     (gsi_decrease_writes_with opts) key_name table_name index_name
                 else
                   decrease_writes_in_units (calc e) updated_write_units
                     (gsi_decrease_writes_with opts) key_name table_name index_name)
          in if updated_write_units \<noteq> updated_provisioning
             then ([], True, updated_provisioning)
             else ([], False, updated_write_units))
       else ([], False, updated_write_units))"

text \<open>\<open>__ensure_provisioning_writes\<close> as a whole, with the ceiling of lines 234 to 247.\<close>

definition ensure_provisioning_writes ::
  "env \<Rightarrow> string \<Rightarrow> string \<Rightarrow> string \<Rightarrow> event list \<times> bool \<times> int" where
  "ensure_provisioning_writes e table_name index_name key_name =
    (let fetches = [Request (GetProvisionedWriteUnits table_name index_name),
                    Request (GetConsumedWriteUnitsPercent table_name index_name)];
         (steps_log, update_needed, updated_write_units) =
            writes_threshold_steps e table_name index_name key_name;
         maximum = gsi_max_provisioned_writes (get_table_option e key_name)
     in
       if updated_write_units > maximum then
         (fetches @ steps_log @
            [Log INFO (''{0} - GSI: {1} - Will not increase writes over '' @
                       ''gsi-max-provisioned-writes limit ({2} writes)'')
               [PyStr table_name, PyStr index_name, PyInt maximum]],
          True, maximum)
       else (fetches @ steps_log, update_needed, updated_write_units))"

subsection \<open>Strings\<close>

text \<open>
  The string methods the module uses, for a separator of one character:
  \<open>s.split(c)\<close>, \<open>s.split(c, 1)\<close>, \<open>s.rsplit(c, 1)\<close> and \<open>sep.join(xs)\<close>. Strings are
  compared as Python 2 compares them, byte by byte, a proper prefix being smaller.
\<close>

primrec split_on :: "char \<Rightarrow> string \<Rightarrow> string list" where
  "split_on c [] = [[]]"
| "split_on c (x # xs) =
     (if x = c then [] # split_on c xs
      else (case split_on c xs of
              w # ws \<Rightarrow> (x # w) # ws
            | [] \<Rightarrow> [[x]]))"

definition split1 :: "char \<Rightarrow> string \<Rightarrow> string list" where
  "split1 c s =
     (if c \<in> set s
      then [takeWhile (\<lambda>x. x \<noteq> c) s, tl (dropWhile (\<lambda>x. x \<noteq> c) s)]
      else [s])"

definition rsplit1 :: "char \<Rightarrow> string \<Rightarrow> string list" where
  "rsplit1 c s =
     (if c \<in> set s
      then [rev (tl (dropWhile (\<lambda>x. x \<noteq> c) (rev s))), rev (takeWhile (\<lambda>x. x \<noteq> c) (rev s))]
      else [s])"

primrec join :: "string \<Rightarrow> string list \<Rightarrow> string" where
  "join sep [] = []"
| "join sep (x # xs) = (if xs = [] then x else x @ sep @ join sep xs)"

subsection \<open>The maintenance window\<close>

text \<open>
  The first loop of \<open>__is_maintenance_window\<close> (lines 261 to 269):
  \<open>start, end = window.split('-', 1)\<close> for each window. The unpacking raises
  \<open>ValueError\<close> unless the split has two parts; the function catches it, logs and returns
  \<open>False\<close> at once. \<open>None\<close> is that case.
\<close>

fun unpack_windows :: "string list \<Rightarrow> (string \<times> string) list option" where
  "unpack_windows [] = Some []"
| "unpack_windows (window # rest) =
     (case split1 CHR ''-'' window of
        [start, finish] \<Rightarrow>
          (case unpack_windows rest of
             None \<Rightarrow> None
           | Some maintenance_window_list \<Rightarrow> Some ((start, finish) # maintenance_window_list))
      | _ \<Rightarrow> None)"

text \<open>The second loop (lines 272 to 278), \<open>now\<close> being the clock as \<open>'%H%M'\<close>.\<close>

fun within_some_window :: "string \<Rightarrow> (string \<times> string) list \<Rightarrow> bool" where
  "within_some_window now [] = False"
| "within_some_window now (maintenance_window # rest) =
     (let start = join [] (split_on CHR '':'' (fst maintenance_window));
          finish = join [] (split_on CHR '':'' (snd maintenance_window))
      in if now \<ge> start \<and> now \<le> finish then True
         else within_some_window now rest)"

definition is_maintenance_window :: "env \<Rightarrow> string \<Rightarrow> string \<Rightarrow> event list \<times> bool" where
  "is_maintenance_window e table_name windows =
     (case unpack_windows (split_on CHR '','' windows) of
        None \<Rightarrow>
          ([Log ERROR ''{0} - Malformatted maintenance window'' [PyStr table_name]], False)
      | Some maintenance_window_list \<Rightarrow>
          ([], within_some_window (utcnow e) maintenance_window_list))"

subsection \<open>The update of the throughput\<close>

text \<open>
  Lines 331 to 357 of \<open>update_throughput\<close>, entered when \<open>always_decrease_rw_together\<close>
  is set: the log of the block and \<open>(read_units, write_units)\<close> after it.
\<close>

definition coupled_scale_down ::
  "table_options \<Rightarrow> string \<Rightarrow> string \<Rightarrow> int \<Rightarrow> int \<Rightarrow> int \<Rightarrow> int \<Rightarrow> event list \<times> int \<times> int" where
  "coupled_scale_down opts table_name index_name current_ru current_wu read_units write_units =
     (if read_units < current_ru \<or> current_ru = gsi_min_provisioned_reads opts then
        (if write_units < current_wu \<or> current_wu = gsi_min_provisioned_writes opts then
           ([Log INFO ''{0} - GSI: {1} - Both reads and writes will be decreased''
               [PyStr table_name, PyStr index_name]],
            read_units, write_units)
         else ([], read_units, write_units))
      else if read_units < current_ru then
        ([Log INFO (''{0} - GSI: {1} - Will not decrease reads nor writes, waiting for '' @
                    ''both to become low before decrease'')
            [PyStr table_name, PyStr index_name]],
         current_ru, write_units)
      else if write_units < current_wu then
        ([Log INFO (''{0} - GSI: {1} - Will not decrease reads nor writes, waiting for '' @
                    ''both to become low before decrease'')
            [PyStr table_name, PyStr index_name]],
         read_units, current_wu)
      else ([], read_units, write_units))"

text \<open>Running \<open>r\<close> after the events \<open>tr\<close>.\<close>

definition after :: "event list \<Rightarrow> outcome option \<Rightarrow> outcome option" where
  "after tr r = (case r of None \<Rightarrow> None | Some (tr', x) \<Rightarrow> Some (tr @ tr', x))"

text \<open>
  Lines 359 to 418: the call of \<open>table.update\<close> and the handler of
  \<open>DynamoDBResponseError\<close>. \<open>self\<close> is \<open>update_throughput\<close> itself, called with the list
  of its positional arguments; an exception of that call leaves the handler.
  \<open>error.body['__type'].rsplit('#', 1)[1]\<close> raises \<open>IndexError\<close> when the type has
  no \<open>#\<close>.
\<close>

definition issue_update ::
  "(pyval list \<Rightarrow> outcome option) \<Rightarrow> table \<Rightarrow> string \<Rightarrow> string \<Rightarrow> int \<Rightarrow> int \<Rightarrow> string
     \<Rightarrow> outcome option" where
  "issue_update self tbl table_name index_name read_units write_units key_name =
     (case update tbl read_units write_units of
        Success \<Rightarrow>
          Some ([Request (TableUpdate table_name read_units write_units),
                 Log INFO ''{0} - GSI: {1} - Provisioning updated''
                   [PyStr table_name, PyStr index_name]], None)
      | DynamoDBResponseError body \<Rightarrow>
          after [Request (TableUpdate table_name read_units write_units)]
           (case rsplit1 CHR ''#'' (body_type body) of
              _ # dynamodb_error # _ \<Rightarrow>
                if dynamodb_error = ''LimitExceededException'' then
                  after [Log WARNING ''{0} - {1}'' [PyStr table_name, PyStr (body_message body)]]
                   (if read_units > throughput_read tbl then
                      after [Log INFO ''{0} - Scaling up reads to {1:d}''
                               [PyStr table_name, PyInt read_units]]
                        (self [PyStr table_name, PyInt read_units,
                               PyInt (throughput_write tbl), PyStr key_name])
                    else if write_units > throughput_write tbl then
                      after [Log INFO ''{0} - Scaling up writes to {1:d}''
                               [PyStr table_name, PyInt write_units]]
                        (self [PyStr table_name, PyInt (throughput_read tbl),
                               PyInt write_units, PyStr key_name])
                    else Some ([], None))
                else if dynamodb_error = ''ValidationException'' then
                  Some ([Log WARNING ''{0} - ValidationException: {1}''
                           [PyStr table_name, PyStr (body_message body)]], None)
                else if dynamodb_error = ''ResourceInUseException'' then
                  Some ([Log WARNING ''{0} - ResourceInUseException: {1}''
                           [PyStr table_name, PyStr (body_message body)]], None)
                else if dynamodb_error = ''AccessDeniedException'' then
                  Some ([Log WARNING ''{0} - AccessDeniedException: {1}''
                           [PyStr table_name, PyStr (body_message body)]], None)
                else
                  Some ([Log ERROR (''{0} - Unhandled exception: {1}: {2}. '' @
                                    ''Please file a bug report at '' @
                                    ''https://github.com/sebdah/dynamic-dynamodb/issues'')
                           [PyStr table_name, PyStr dynamodb_error,
                            PyStr (body_message body)]], None)
            | _ \<Rightarrow> Some ([], Some IndexError)))"

text \<open>
  The body of \<open>update_throughput\<close> (lines 296 to 418) once its five parameters are bound.
  \<open>current_wu\<close> is read with \<open>get_provisioned_read_units\<close>, as line 304 has it; the
  status that is not \<open>ACTIVE\<close> is logged and the function goes on, as lines 324 to 327
  have it.
\<close>

definition update_throughput_body ::
  "(pyval list \<Rightarrow> outcome option) \<Rightarrow> env \<Rightarrow> string \<Rightarrow> string \<Rightarrow> int \<Rightarrow> int \<Rightarrow> string
     \<Rightarrow> outcome option" where
  "update_throughput_body self e table_name index_name read_units write_units key_name =
     (case get_table e table_name of
        None \<Rightarrow> Some ([Request (GetTable table_name)], None)
      | Some tbl \<Rightarrow>
         (let opts = get_table_option e key_name;
              current_ru = get_provisioned_read_units e table_name index_name;
              current_wu = get_provisioned_read_units e table_name index_name;
              fetches = [Request (GetTable table_name),
                         Request (GetProvisionedReadUnits table_name index_name),
                         Request (GetProvisionedReadUnits table_name index_name)];
              (window_log, in_window) =
                 (if maintenance_windows opts \<noteq> []
                  then is_maintenance_window e table_name (maintenance_windows opts)
                  else ([], True))
          in
            if maintenance_windows opts \<noteq> [] \<and> \<not> in_window then
              Some (fetches @ window_log @
                      [Log WARNING ''{0} - Current time is outside maintenance window''
                         [PyStr table_name]], None)
            else
             (let window_info =
                    (if maintenance_windows opts \<noteq> []
                     then [Log INFO ''{0} - Current time is within maintenance window''
                             [PyStr table_name]]
                     else []);
                  gsi_status = get_gsi_status e table_name;
                  status_log =
                    Request (GetGsiStatus table_name) #
                    (if gsi_status \<noteq> ''ACTIVE''
                     then [Log WARNING (''{0} - GSI: {1} - Not performing throughput changes '' @
                                        ''when table is in {1} state'')
                             [PyStr table_name, PyStr index_name, PyStr gsi_status]]
                     else []);
                  (coupled_log, read_units', write_units') =
                    (if always_decrease_rw_together opts
                     then coupled_scale_down opts table_name index_name
                            current_ru current_wu read_units write_units
                     else ([], read_units, write_units))
              in
                after (fetches @ window_log @ window_info @ status_log @ coupled_log)
                  (if \<not> dry_run e
                   then issue_update self tbl table_name index_name
                          read_units' write_units' key_name
                   else Some ([], None)))))"

text \<open>
  \<open>update_throughput(table_name, index_name, read_units, write_units, key_name)\<close>, called
  with a list of positional arguments. Python binds the arguments before it runs the
  body: a call that does not give five raises \<open>TypeError\<close>. The first argument of the
  model counts the calls of the function that may still be entered, one inside the
  other; \<open>None\<close> says that the count was used up. The types of the parameters are those of
  the docstring (\<open>str, str, int, int, str\<close>); a call with five arguments of other types
  is none the module makes, and the model answers it with \<open>TypeError\<close> as well.
\<close>

definition arity_error :: error where
  "arity_error = TypeError ''update_throughput() takes exactly 5 arguments (4 given)''"

primrec update_throughput :: "nat \<Rightarrow> env \<Rightarrow> pyval list \<Rightarrow> outcome option" where
  "update_throughput 0 e args =
     (if length args \<noteq> 5 then Some ([], Some arity_error) else None)"
| "update_throughput (Suc n) e args =
     (if length args \<noteq> 5 then Some ([], Some arity_error)
      else (case args of
              [PyStr table_name, PyStr index_name, PyInt read_units, PyInt write_units,
               PyStr key_name] \<Rightarrow>
                update_throughput_body (update_throughput n e) e
                  table_name index_name read_units write_units key_name
            | _ \<Rightarrow> Some ([], Some (TypeError ''argument types''))))"

subsection \<open>The loop over the indexes\<close>

text \<open>
  The \<open>for\<close> loop of \<open>ensure_provisioning\<close> (lines 43 to 76). The call of
  \<open>update_throughput\<close> passes four positional arguments:
  \<open>table_name, updated_read_units, updated_write_units, key_name\<close>. An exception of the
  call ends the loop, nothing in \<open>ensure_provisioning\<close> catching it.
\<close>

fun ensure_each_gsi :: "nat \<Rightarrow> env \<Rightarrow> string \<Rightarrow> string \<Rightarrow> gsi list \<Rightarrow> outcome option" where
  "ensure_each_gsi fuel e table_name key_name [] = Some ([], None)"
| "ensure_each_gsi fuel e table_name key_name (g # gsis) =
     (let index_name = IndexName g;
          (reads_trace, read_update_needed, updated_read_units) =
             ensure_provisioning_reads e table_name index_name key_name;
          (writes_trace, write_update_needed, updated_write_units) =
             ensure_provisioning_writes e table_name index_name key_name
      in
        if read_update_needed \<or> write_update_needed then
          (case after (reads_trace @ writes_trace @
                         [Log INFO (''{0} - GSI: {1} - Changing provisioning to {2:d} '' @
                                    ''read units and {3:d} write units'')
                            [PyStr table_name, PyStr index_name,
                             PyInt updated_read_units, PyInt updated_write_units]])
                  (update_throughput fuel e
                     [PyStr table_name, PyInt updated_read_units,
                      PyInt updated_write_units, PyStr key_name]) of
             None \<Rightarrow> None
           | Some (tr, Some err) \<Rightarrow> Some (tr, Some err)
           | Some (tr, None) \<Rightarrow> after tr (ensure_each_gsi fuel e table_name key_name gsis))
        else
          after (reads_trace @ writes_trace @
                   [Log INFO ''{0} - GSI: {1} - No need to change provisioning''
                      [PyStr table_name, PyStr index_name]])
            (ensure_each_gsi fuel e table_name key_name gsis))"

text \<open>
  \<open>ensure_provisioning(table_name, key_name)\<close>. \<open>circuit_breaker.is_open()\<close> is asked only
  when the option \<open>circuit_breaker_url\<close> is set (a string that is not empty).
\<close>

definition ensure_provisioning :: "nat \<Rightarrow> env \<Rightarrow> string \<Rightarrow> string \<Rightarrow> outcome option" where
  "ensure_provisioning fuel e table_name key_name =
     (if circuit_breaker_url e \<noteq> [] \<and> circuit_breaker_is_open e then
        Some ([Request CircuitBreakerIsOpen, Log WARNING ''Circuit breaker is OPEN!'' []], None)
      else
       (let breaker = (if circuit_breaker_url e \<noteq> [] then [Request CircuitBreakerIsOpen] else []);
            gsis = table_gsis e table_name
        in
          if gsis = [] then
            Some (breaker @
                  [Request (TableGsis table_name),
                   Log DEBUG ''{0} - No global secondary indexes found'' [PyStr table_name]],
                  None)
          else
            after (breaker @
                   [Request (TableGsis table_name),
                    Log INFO (''{0} - Will ensure provisioning for the followig '' @
                              ''global secondary indexes: {1}'')
                      [PyStr table_name, PyStr (join '', '' (map IndexName gsis))]])
              (ensure_each_gsi fuel e table_name key_name gsis)))"

subsection \<open>Reading a trace\<close>

text \<open>The updates a trace sends, as \<open>(read, write)\<close>, in order.\<close>

fun updates_of :: "event list \<Rightarrow> (int \<times> int) list" where
  "updates_of [] = []"
| "updates_of (Request (TableUpdate t r w) # tr) = (r, w) # updates_of tr"
| "updates_of (ev # tr) = updates_of tr"

subsection \<open>A table to run the functions on\<close>

text \<open>
  The table of the spec's end-to-end example: \<open>orders\<close> with the index \<open>by_customer\<close>,
  provisioned \<open>(100, 50)\<close>, 95 percent of the reads and 50 percent of the writes consumed,
  thresholds 80 and 20, increases of 50 percent. The remote system accepts every update.
\<close>

definition example_options :: table_options where
  "example_options =
     \<lparr> allow_scaling_down_reads_on_0_percent = False,
       allow_scaling_down_writes_on_0_percent = False,
       gsi_reads_upper_threshold = 80,
       gsi_reads_lower_threshold = 20,
       gsi_writes_upper_threshold = 80,
       gsi_writes_lower_threshold = 20,
       gsi_increase_reads_unit = ''percent'',
       gsi_increase_reads_with = 50,
       gsi_decrease_reads_unit = ''percent'',
       gsi_decrease_reads_with = 50,
       gsi_increase_writes_unit = ''percent'',
       gsi_increase_writes_with = 50,
       gsi_decrease_writes_unit = ''percent'',
       gsi_decrease_writes_with = 50,
       gsi_max_provisioned_reads = 1000,
       gsi_max_provisioned_writes = 1000,
       gsi_min_provisioned_reads = 1,
       gsi_min_provisioned_writes = 1,
       maintenance_windows = [],
       always_decrease_rw_together = False \<rparr>"

text \<open>
  Modelled from the spec: the clamp of section 4.1, which is part of the calculators of
  \<open>dynamic_dynamodb.calculators.gsi\<close>, a module that is not among the sources. The
  result of a calculator is brought into \<open>[min, max]\<close> after the raw delta.
\<close>

definition clamp_units :: "int \<Rightarrow> int \<Rightarrow> int \<Rightarrow> int" where
  "clamp_units lowest highest units =
     (if units < lowest then lowest else if highest < units then highest else units)"

text \<open>
  Modelled from the spec: the calculators of \<open>dynamic_dynamodb.calculators.gsi\<close>, which
  are not among the sources. Section 4.1 gives \<open>current + amount\<close> and
  \<open>current - amount\<close> for an absolute amount, \<open>ceil(current * (1 + amount/100))\<close> and
  \<open>ceil(current * (1 - amount/100))\<close> for a percentage, and the clamp of the result to
  the minimum and the maximum of the dimension, which the calculators look up under
  \<open>key_name\<close> in the configuration \<open>options\<close>. They only serve to fill the environments
  below; no theorem of this theory runs a calculator.
\<close>

definition example_calculators :: "(string \<Rightarrow> table_options) \<Rightarrow> calculators" where
  "example_calculators options =
     \<lparr> increase_reads_in_percent = (\<lambda>current amount key_name table_name index_name.
         clamp_units (gsi_min_provisioned_reads (options key_name))
           (gsi_max_provisioned_reads (options key_name))
           (- ((- (current * (100 + amount))) div 100))),
       increase_reads_in_units = (\<lambda>current amount key_name table_name index_name.
         clamp_units (gsi_min_provisioned_reads (options key_name))
           (gsi_max_provisioned_reads (options key_name))
           (current + amount)),
       decrease_reads_in_percent = (\<lambda>current amount key_name table_name index_name.
         clamp_units (gsi_min_provisioned_reads (options key_name))
           (gsi_max_provisioned_reads (options key_name))
           (- ((- (current * (100 - amount))) div 100))),
       decrease_reads_in_units = (\<lambda>current amount key_name table_name index_name.
         clamp_units (gsi_min_provisioned_reads (options key_name))
           (gsi_max_provisioned_reads (options key_name))
           (current - amount)),
       increase_writes_in_percent = (\<lambda>current amount key_name table_name index_name.
         clamp_units (gsi_min_provisioned_writes (options key_name))
           (gsi_max_provisioned_writes (options key_name))
           (- ((- (current * (100 + amount))) div 100))),
       increase_writes_in_units = (\<lambda>current amount key_name table_name index_name.
         clamp_units (gsi_min_provisioned_writes (options key_name))
           (gsi_max_provisioned_writes (options key_name))
           (current + amount)),
       decrease_writes_in_percent = (\<lambda>current amount key_name table_name index_name.
         clamp_units (gsi_min_provisioned_writes (options key_name))
           (gsi_max_provisioned_writes (options key_name))
           (- ((- (current * (100 - amount))) div 100))),
       decrease_writes_in_units = (\<lambda>current amount key_name table_name index_name.
         clamp_units (gsi_min_provisioned_writes (options key_name))
           (gsi_max_provisioned_writes (options key_name))
           (current - amount)) \<rparr>"

definition example_table :: table where
  "example_table =
     \<lparr> throughput_read = 100, throughput_write = 50, update = (\<lambda>r w. Success) \<rparr>"

definition example_env :: env where
  "example_env =
     \<lparr> circuit_breaker_url = [],
       dry_run = False,
       circuit_breaker_is_open = False,
       table_gsis = (\<lambda>t. [\<lparr> IndexName = ''by_customer'' \<rparr>]),
       get_provisioned_read_units = (\<lambda>t i. 100),
       get_provisioned_write_units = (\<lambda>t i. 50),
       get_consumed_read_units_percent = (\<lambda>t i. 95),
       get_consumed_write_units_percent = (\<lambda>t i. 50),
       get_table_option = (\<lambda>k. example_options),
       calc = example_calculators (\<lambda>k. example_options),
       get_table = (\<lambda>t. Some example_table),
       get_gsi_status = (\<lambda>t. ''ACTIVE''),
       utcnow = ''0930'' \<rparr>"

text \<open>The same table while the index is being updated by the remote system.\<close>

definition updating_env :: env where
  "updating_env = example_env \<lparr> get_gsi_status := (\<lambda>t. ''UPDATING'') \<rparr>"

text \<open>
  The same table with \<open>always_decrease_rw_together\<close> set and \<open>(100, 100)\<close> provisioned.
\<close>

definition coupled_env :: env where
  "coupled_env =
     example_env \<lparr> get_provisioned_write_units := (\<lambda>t i. 100),
                   get_table_option :=
                     (\<lambda>k. example_options \<lparr> always_decrease_rw_together := True \<rparr>),
                   calc :=
                     example_calculators
                       (\<lambda>k. example_options \<lparr> always_decrease_rw_together := True \<rparr>) \<rparr>"

text \<open>The same table on a remote system that rejects every update as over its limit.\<close>

definition limit_exceeded :: error_body where
  "limit_exceeded =
     \<lparr> body_type = ''com.amazonaws.dynamodb.v20120810#LimitExceededException'',
       body_message = ''Subscriber limit exceeded'' \<rparr>"

definition rejecting_env :: env where
  "rejecting_env =
     example_env \<lparr> get_table :=
       (\<lambda>t. Some (example_table \<lparr> update := (\<lambda>r w. DynamoDBResponseError limit_exceeded) \<rparr>)) \<rparr>"

text \<open>
  The same table with a ceiling of 50 read units and 25 write units under what is
  provisioned, and nothing consumed.
\<close>

definition over_ceiling_env :: env where
  "over_ceiling_env =
     example_env \<lparr> get_consumed_read_units_percent := (\<lambda>t i. 0),
                   get_consumed_write_units_percent := (\<lambda>t i. 0),
                   get_table_option :=
                     (\<lambda>k. example_options \<lparr> gsi_max_provisioned_reads := 50,
                                             gsi_max_provisioned_writes := 25 \<rparr>),
                   calc :=
                     example_calculators
                       (\<lambda>k. example_options \<lparr> gsi_max_provisioned_reads := 50,
                                               gsi_max_provisioned_writes := 25 \<rparr>) \<rparr>"

text \<open>The same table behind a circuit breaker that is open.\<close>

definition breaker_env :: env where
  "breaker_env =
     example_env \<lparr> circuit_breaker_url := ''http://localhost/health'',
                   circuit_breaker_is_open := True \<rparr>"

text \<open>
  The same table with the ceilings of 50 and 25 units and half of the reads and of the
  writes consumed, inside the band of the thresholds.
\<close>

definition band_env :: env where
  "band_env =
     example_env \<lparr> get_consumed_read_units_percent := (\<lambda>t i. 50),
                   get_table_option :=
                     (\<lambda>k. example_options \<lparr> gsi_max_provisioned_reads := 50,
                                             gsi_max_provisioned_writes := 25 \<rparr>),
                   calc :=
                     example_calculators
                       (\<lambda>k. example_options \<lparr> gsi_max_provisioned_reads := 50,
                                               gsi_max_provisioned_writes := 25 \<rparr>) \<rparr>"


section \<open>Properties\<close>

subsection \<open>Traces and calls\<close>

lemma update_throughput_wrong_arity:
  "length args \<noteq> 5 \<Longrightarrow> update_throughput n e args = Some ([], Some arity_error)"
  by (cases n) simp_all

lemma updates_of_append: "updates_of (xs @ ys) = updates_of xs @ updates_of ys"
  by (induction xs rule: updates_of.induct) simp_all

lemma updates_of_is_maintenance_window:
  "updates_of (fst (is_maintenance_window e t ws)) = []"
  by (simp add: is_maintenance_window_def split: option.split)

lemma updates_of_ensure_provisioning_reads:
  "updates_of (fst (ensure_provisioning_reads e t i k)) = []"
  by (simp add: ensure_provisioning_reads_def reads_threshold_steps_def Let_def)

lemma updates_of_ensure_provisioning_writes:
  "updates_of (fst (ensure_provisioning_writes e t i k)) = []"
  by (simp add: ensure_provisioning_writes_def writes_threshold_steps_def Let_def)

lemma coupled_scale_down_frame:
  "coupled_scale_down opts t i current_ru current_wu r w = (cl, r', w') \<Longrightarrow>
     updates_of cl = [] \<and> r' = r \<and> (w' = w \<or> w' = current_wu)"
  by (auto simp: coupled_scale_down_def split: if_splits)

text \<open>
  Whatever the remote system answers, \<open>table.update\<close> is called once; the call of
  \<open>update_throughput\<close> in the handler has four arguments and sends nothing.
\<close>

lemma issue_update_outcome:
  "\<exists>tr x. issue_update (update_throughput n e) tbl t i r w k = Some (tr, x) \<and>
          updates_of tr = [(r, w)]"
  by (auto simp: issue_update_def after_def update_throughput_wrong_arity
           split: response.split list.split)

lemma issue_update_fuel:
  "issue_update (update_throughput n e) tbl t i r w k =
   issue_update (update_throughput 0 e) tbl t i r w k"
  by (simp add: issue_update_def update_throughput_wrong_arity
           split: response.split list.split)

lemma update_throughput_body_outcome:
  "\<exists>tr x. update_throughput_body (update_throughput n e) e t i r w k = Some (tr, x) \<and>
     (updates_of tr = [] \<or>
      (\<exists>w'. updates_of tr = [(r, w')] \<and> (w' = w \<or> w' = get_provisioned_read_units e t i)))"
proof (cases "get_table e t")
  case None
  then show ?thesis by (simp add: update_throughput_body_def)
next
  case (Some tbl)
  let ?opts = "get_table_option e k"
  let ?cur = "get_provisioned_read_units e t i"
  obtain wl inw where W:
    "(if maintenance_windows ?opts \<noteq> []
      then is_maintenance_window e t (maintenance_windows ?opts) else ([], True)) = (wl, inw)"
    by (cases "(if maintenance_windows ?opts \<noteq> []
      then is_maintenance_window e t (maintenance_windows ?opts) else ([], True))")
  have wl: "updates_of wl = []"
    using W updates_of_is_maintenance_window [of e t "maintenance_windows ?opts"]
    by (auto split: if_splits)
  obtain cl r' w' where C:
    "(if always_decrease_rw_together ?opts
      then coupled_scale_down ?opts t i ?cur ?cur r w else ([], r, w)) = (cl, r', w')"
    by (cases "(if always_decrease_rw_together ?opts
      then coupled_scale_down ?opts t i ?cur ?cur r w else ([], r, w))")
  have cl: "updates_of cl = [] \<and> r' = r \<and> (w' = w \<or> w' = ?cur)"
    using C coupled_scale_down_frame [of ?opts t i ?cur ?cur r w cl r' w']
    by (auto split: if_splits)
  obtain tr x where I:
    "issue_update (update_throughput n e) tbl t i r' w' k = Some (tr, x)"
    "updates_of tr = [(r', w')]"
    using issue_update_outcome by blast
  show ?thesis
    using Some W wl C cl I
    by (auto simp: update_throughput_body_def Let_def after_def updates_of_append)
qed

lemma update_throughput_body_fuel:
  "update_throughput_body (update_throughput n e) e t i r w k =
   update_throughput_body (update_throughput 0 e) e t i r w k"
  unfolding update_throughput_body_def issue_update_fuel [of n e] by (rule refl)

lemma ensure_each_gsi_raises:
  "\<exists>g \<in> set gsis. fst (snd (ensure_provisioning_reads e t (IndexName g) k)) \<or>
                   fst (snd (ensure_provisioning_writes e t (IndexName g) k)) \<Longrightarrow>
   \<exists>tr. ensure_each_gsi fuel e t k gsis = Some (tr, Some arity_error) \<and> updates_of tr = []"
proof (induction gsis)
  case Nil
  then show ?case by simp
next
  case (Cons g gsis)
  obtain rt rn ru where R: "ensure_provisioning_reads e t (IndexName g) k = (rt, rn, ru)"
    by (cases "ensure_provisioning_reads e t (IndexName g) k")
  obtain wt wn wu where W: "ensure_provisioning_writes e t (IndexName g) k = (wt, wn, wu)"
    by (cases "ensure_provisioning_writes e t (IndexName g) k")
  have rt: "updates_of rt = []"
    using updates_of_ensure_provisioning_reads [of e t "IndexName g" k] R by simp
  have wt: "updates_of wt = []"
    using updates_of_ensure_provisioning_writes [of e t "IndexName g" k] W by simp
  show ?case
  proof (cases "rn \<or> wn")
    case True
    then show ?thesis
      using R W rt wt
      by (simp add: Let_def after_def update_throughput_wrong_arity updates_of_append)
  next
    case False
    then have "\<exists>g \<in> set gsis. fst (snd (ensure_provisioning_reads e t (IndexName g) k)) \<or>
                   fst (snd (ensure_provisioning_writes e t (IndexName g) k))"
      using Cons.prems R W by auto
    then obtain tr where
      "ensure_each_gsi fuel e t k gsis = Some (tr, Some arity_error)" "updates_of tr = []"
      using Cons.IH by blast
    then show ?thesis
      using False R W rt wt by (simp add: Let_def after_def updates_of_append)
  qed
qed

lemma unpack_windows_malformed:
  "w \<in> set ws \<Longrightarrow> CHR ''-'' \<notin> set w \<Longrightarrow> unpack_windows ws = None"
  by (induction ws) (auto simp: split1_def split: option.splits list.splits)

subsection \<open>The call of the updater from the loop\<close>

text \<open>
  Claim C1 says that an index whose read or write decision asks for an update gets
  exactly one call of \<open>update_throughput\<close>, with the proposed read units as \<open>read_units\<close>,
  the proposed write units as \<open>write_units\<close>, the name of the index as \<open>index_name\<close> and
  the configuration key as \<open>key_name\<close>. The code does otherwise. The call of lines 66 to
  70 gives four positional arguments to a function of five parameters, the name of the
  index left out: Python raises \<open>TypeError\<close> before the body runs. So whenever the
  circuit breaker lets the run through and some index of the table needs an update,
  \<open>ensure_provisioning\<close> ends with that exception and no update has been sent.
\<close>

theorem update_needed_call_raises_type_error:
  assumes "\<not> (circuit_breaker_url e \<noteq> [] \<and> circuit_breaker_is_open e)"
    and "g \<in> set (table_gsis e table_name)"
    and "fst (snd (ensure_provisioning_reads e table_name (IndexName g) key_name)) \<or>
         fst (snd (ensure_provisioning_writes e table_name (IndexName g) key_name))"
  shows "\<exists>tr. ensure_provisioning fuel e table_name key_name = Some (tr, Some arity_error) \<and>
              updates_of tr = []"
proof -
  have ne: "table_gsis e table_name \<noteq> []" using assms(2) by auto
  obtain tr where
    "ensure_each_gsi fuel e table_name key_name (table_gsis e table_name) =
       Some (tr, Some arity_error)" "updates_of tr = []"
    using ensure_each_gsi_raises [of "table_gsis e table_name" e table_name key_name fuel]
      assms(2,3) by blast
  then show ?thesis
    using assms(1) ne by (auto simp: ensure_provisioning_def Let_def after_def updates_of_append)
qed

text \<open>
  The run on the table whose provisioned \<open>(100, 50)\<close> is over the ceilings \<open>(50, 25)\<close>:
  both decisions ask for an update, the proposal \<open>(50, 25)\<close> is logged, the call raises.
\<close>

theorem update_needed_call_raises_type_error_witness:
  "\<not> (circuit_breaker_url band_env \<noteq> [] \<and> circuit_breaker_is_open band_env) \<and>
   \<lparr> IndexName = ''by_customer'' \<rparr> \<in> set (table_gsis band_env ''orders'') \<and>
   fst (snd (ensure_provisioning_reads band_env ''orders'' ''by_customer'' ''orders'')) \<and>
   ensure_provisioning 1 band_env ''orders'' ''orders'' =
     Some ([Request (TableGsis ''orders''),
            Log INFO (''{0} - Will ensure provisioning for the followig '' @
                      ''global secondary indexes: {1}'')
              [PyStr ''orders'', PyStr ''by_customer''],
            Request (GetProvisionedReadUnits ''orders'' ''by_customer''),
            Request (GetConsumedReadUnitsPercent ''orders'' ''by_customer''),
            Log INFO ''Will not increase writes over gsi-max-provisioned-reads limit ({0} writes)''
              [PyInt 50],
            Request (GetProvisionedWriteUnits ''orders'' ''by_customer''),
            Request (GetConsumedWriteUnitsPercent ''orders'' ''by_customer''),
            Log INFO (''{0} - GSI: {1} - Will not increase writes over '' @
                      ''gsi-max-provisioned-writes limit ({2} writes)'')
              [PyStr ''orders'', PyStr ''by_customer'', PyInt 25],
            Log INFO (''{0} - GSI: {1} - Changing provisioning to {2:d} '' @
                      ''read units and {3:d} write units'')
              [PyStr ''orders'', PyStr ''by_customer'', PyInt 50, PyInt 25]],
           Some (TypeError ''update_throughput() takes exactly 5 arguments (4 given)''))"
proof -
  have h1: "\<not> (circuit_breaker_url band_env \<noteq> [] \<and> circuit_breaker_is_open band_env)"
    by (simp add: band_env_def example_env_def)
  have h2: "\<lparr> IndexName = ''by_customer'' \<rparr> \<in> set (table_gsis band_env ''orders'')"
    by (simp add: band_env_def example_env_def)
  have h3: "fst (snd (ensure_provisioning_reads band_env ''orders'' ''by_customer'' ''orders''))"
    by (simp add: band_env_def example_env_def example_options_def
          ensure_provisioning_reads_def reads_threshold_steps_def)
  have h3': "fst (snd (ensure_provisioning_reads band_env ''orders''
                (IndexName \<lparr> IndexName = ''by_customer'' \<rparr>) ''orders'')) \<or>
             fst (snd (ensure_provisioning_writes band_env ''orders''
                (IndexName \<lparr> IndexName = ''by_customer'' \<rparr>) ''orders''))"
    using h3 by simp
  have run: "ensure_provisioning 1 band_env ''orders'' ''orders'' =
     Some ([Request (TableGsis ''orders''),
            Log INFO (''{0} - Will ensure provisioning for the followig '' @
                      ''global secondary indexes: {1}'')
              [PyStr ''orders'', PyStr ''by_customer''],
            Request (GetProvisionedReadUnits ''orders'' ''by_customer''),
            Request (GetConsumedReadUnitsPercent ''orders'' ''by_customer''),
            Log INFO ''Will not increase writes over gsi-max-provisioned-reads limit ({0} writes)''
              [PyInt 50],
            Request (GetProvisionedWriteUnits ''orders'' ''by_customer''),
            Request (GetConsumedWriteUnitsPercent ''orders'' ''by_customer''),
            Log INFO (''{0} - GSI: {1} - Will not increase writes over '' @
                      ''gsi-max-provisioned-writes limit ({2} writes)'')
              [PyStr ''orders'', PyStr ''by_customer'', PyInt 25],
            Log INFO (''{0} - GSI: {1} - Changing provisioning to {2:d} '' @
                      ''read units and {3:d} write units'')
              [PyStr ''orders'', PyStr ''by_customer'', PyInt 50, PyInt 25]],
           Some (TypeError ''update_throughput() takes exactly 5 arguments (4 given)''))"
    by code_simp
  show ?thesis
    using h1 h2 h3 run update_needed_call_raises_type_error [OF h1 h2 h3', of 1]
    by simp
qed

subsection \<open>The update itself\<close>

text \<open>
  Claim C2 says that with \<open>always_decrease_rw_together\<close> set, current capacity \<open>(R, W)\<close>
  and a proposal \<open>(R', W)\<close> with \<open>R' < R\<close> and \<open>R\<close> not at the floor of the reads, the
  update sent is \<open>(R, W)\<close>. The code sends \<open>(R', W)\<close>: with \<open>(100, 100)\<close> provisioned, a floor
  of 1 and the proposal \<open>(50, 100)\<close>, the condition of line 332 holds, the \<open>elif\<close> of line
  344 that would put the reads back is never looked at, and \<open>(50, 100)\<close> goes out.
\<close>

theorem coupled_scale_down_lets_reads_shrink_alone:
  "update_throughput 1 coupled_env
     [PyStr ''orders'', PyStr ''by_customer'', PyInt 50, PyInt 100, PyStr ''orders''] =
     Some ([Request (GetTable ''orders''),
            Request (GetProvisionedReadUnits ''orders'' ''by_customer''),
            Request (GetProvisionedReadUnits ''orders'' ''by_customer''),
            Request (GetGsiStatus ''orders''),
            Request (TableUpdate ''orders'' 50 100),
            Log INFO ''{0} - GSI: {1} - Provisioning updated''
              [PyStr ''orders'', PyStr ''by_customer'']],
           None)"
  by code_simp

text \<open>
  Claim C3 says that after a rejection of the kind \<open>LimitExceededException\<close>, the proposal
  being over the table's throughput in both dimensions, exactly one more update is sent,
  which changes one dimension only. The code sends none: the call of lines 378 to 382
  has four arguments, as the one of the loop has, and raises \<open>TypeError\<close> inside the
  handler. With the table at \<open>(100, 50)\<close> and the proposal \<open>(200, 100)\<close> the only update
  of the trace is the rejected one, and the exception leaves \<open>update_throughput\<close>.
\<close>

theorem limit_exceeded_retry_raises:
  "update_throughput 2 rejecting_env
     [PyStr ''orders'', PyStr ''by_customer'', PyInt 200, PyInt 100, PyStr ''orders''] =
     Some ([Request (GetTable ''orders''),
            Request (GetProvisionedReadUnits ''orders'' ''by_customer''),
            Request (GetProvisionedReadUnits ''orders'' ''by_customer''),
            Request (GetGsiStatus ''orders''),
            Request (TableUpdate ''orders'' 200 100),
            Log WARNING ''{0} - {1}'' [PyStr ''orders'', PyStr ''Subscriber limit exceeded''],
            Log INFO ''{0} - Scaling up reads to {1:d}'' [PyStr ''orders'', PyInt 200]],
           Some (TypeError ''update_throughput() takes exactly 5 arguments (4 given)''))"
  by code_simp

text \<open>
  Claim C4 says that a status other than \<open>ACTIVE\<close> makes \<open>update_throughput\<close> log a
  warning and skip, no update being sent. The code logs the warning and goes on, for
  want of a \<open>return\<close> after line 327: with the status \<open>UPDATING\<close> the update \<open>(150, 50)\<close>
  follows the warning in the trace.
\<close>

theorem status_not_active_still_updates:
  "update_throughput 1 updating_env
     [PyStr ''orders'', PyStr ''by_customer'', PyInt 150, PyInt 50, PyStr ''orders''] =
     Some ([Request (GetTable ''orders''),
            Request (GetProvisionedReadUnits ''orders'' ''by_customer''),
            Request (GetProvisionedReadUnits ''orders'' ''by_customer''),
            Request (GetGsiStatus ''orders''),
            Log WARNING (''{0} - GSI: {1} - Not performing throughput changes '' @
                         ''when table is in {1} state'')
              [PyStr ''orders'', PyStr ''by_customer'', PyStr ''UPDATING''],
            Request (TableUpdate ''orders'' 150 50),
            Log INFO ''{0} - GSI: {1} - Provisioning updated''
              [PyStr ''orders'', PyStr ''by_customer'']],
           None)"
  by code_simp

text \<open>
  Claim C5: the retry after a rejection ends on every input. One rejected request is
  followed by at most two requests for a single dimension, and the function is entered
  again at most once inside itself, however often the remote system rejects. In the
  model: for every environment and every list of arguments \<open>update_throughput\<close> returns
  as soon as it may be entered once, allowing more entries changes nothing, and the
  trace holds at most one update, so that none follows a rejected one.
\<close>

theorem update_throughput_returns_after_one_entry:
  "(\<exists>tr x. update_throughput (Suc n) e args = Some (tr, x) \<and> length (updates_of tr) \<le> 1) \<and>
   update_throughput (Suc n) e args = update_throughput (Suc 0) e args"
proof
  show "update_throughput (Suc n) e args = update_throughput (Suc 0) e args"
    by (simp add: update_throughput_body_fuel [of n] split: list.split pyval.split)
  have body: "\<exists>tr x. update_throughput_body (update_throughput n e) e t i r w k = Some (tr, x) \<and>
                length (updates_of tr) \<le> 1" for t i r w k
    using update_throughput_body_outcome [of n e t i r w k] by auto
  show "\<exists>tr x. update_throughput (Suc n) e args = Some (tr, x) \<and> length (updates_of tr) \<le> 1"
    using body by (simp split: list.split pyval.split)
qed

subsection \<open>The decision\<close>

text \<open>
  Claim C6, as amended. When the consumed percentage of a dimension is exactly 0 and
  scaling down at 0 percent is not allowed for it, the decision returns the provisioned
  units of that dimension, unless they are over the configured maximum, in which case it
  returns the maximum: the smaller of the two, whatever the thresholds are.
\<close>

theorem zero_percent_keeps_units_under_ceiling:
  "(get_consumed_read_units_percent e t i = 0 \<and>
    \<not> allow_scaling_down_reads_on_0_percent (get_table_option e k) \<longrightarrow>
      snd (snd (ensure_provisioning_reads e t i k)) =
        min (get_provisioned_read_units e t i) (gsi_max_provisioned_reads (get_table_option e k))) \<and>
   (get_consumed_write_units_percent e t i = 0 \<and>
    \<not> allow_scaling_down_writes_on_0_percent (get_table_option e k) \<longrightarrow>
      snd (snd (ensure_provisioning_writes e t i k)) =
        min (get_provisioned_write_units e t i) (gsi_max_provisioned_writes (get_table_option e k)))"
  by (simp add: ensure_provisioning_reads_def reads_threshold_steps_def
        ensure_provisioning_writes_def writes_threshold_steps_def Let_def)

text \<open>On the table over its ceilings with nothing consumed: 50 read and 25 write units.\<close>

theorem zero_percent_keeps_units_under_ceiling_witness:
  "(get_consumed_read_units_percent over_ceiling_env ''orders'' ''by_customer'' = 0 \<and>
    \<not> allow_scaling_down_reads_on_0_percent (get_table_option over_ceiling_env ''orders'')) \<and>
   snd (snd (ensure_provisioning_reads over_ceiling_env ''orders'' ''by_customer'' ''orders'')) = 50 \<and>
   (get_consumed_write_units_percent over_ceiling_env ''orders'' ''by_customer'' = 0 \<and>
    \<not> allow_scaling_down_writes_on_0_percent (get_table_option over_ceiling_env ''orders'')) \<and>
   snd (snd (ensure_provisioning_writes over_ceiling_env ''orders'' ''by_customer'' ''orders'')) = 25"
  using zero_percent_keeps_units_under_ceiling
          [of over_ceiling_env "''orders''" "''by_customer''" "''orders''"]
  by (simp add: over_ceiling_env_def example_env_def example_options_def)

text \<open>
  Claim C6 as it was stated, that the units returned are never under the provisioned
  ones, fails on that table: 100 read units are provisioned and 50 are returned.
\<close>

theorem zero_percent_units_below_current_counterexample:
  "get_consumed_read_units_percent over_ceiling_env ''orders'' ''by_customer'' = 0 \<and>
   \<not> allow_scaling_down_reads_on_0_percent (get_table_option over_ceiling_env ''orders'') \<and>
   get_provisioned_read_units over_ceiling_env ''orders'' ''by_customer'' = 100 \<and>
   snd (ensure_provisioning_reads over_ceiling_env ''orders'' ''by_customer'' ''orders'') = (True, 50) \<and>
   snd (snd (ensure_provisioning_reads over_ceiling_env ''orders'' ''by_customer'' ''orders''))
     < get_provisioned_read_units over_ceiling_env ''orders'' ''by_customer''"
  by (simp add: over_ceiling_env_def example_env_def example_options_def
        ensure_provisioning_reads_def reads_threshold_steps_def)

text \<open>
  Claim C7: the units a decision returns are never over the configured maximum of its
  dimension, and whenever the units that stand after the threshold steps are over it
  (the provisioned units themselves, when the steps change nothing), the decision returns
  the maximum with the flag \<open>update_needed\<close> set.
\<close>

theorem units_never_over_the_ceiling:
  "snd (snd (ensure_provisioning_reads e t i k)) \<le> gsi_max_provisioned_reads (get_table_option e k) \<and>
   (snd (snd (reads_threshold_steps e t i k)) > gsi_max_provisioned_reads (get_table_option e k) \<longrightarrow>
      snd (ensure_provisioning_reads e t i k) =
        (True, gsi_max_provisioned_reads (get_table_option e k))) \<and>
   snd (snd (ensure_provisioning_writes e t i k)) \<le> gsi_max_provisioned_writes (get_table_option e k) \<and>
   (snd (snd (writes_threshold_steps e t i k)) > gsi_max_provisioned_writes (get_table_option e k) \<longrightarrow>
      snd (ensure_provisioning_writes e t i k) =
        (True, gsi_max_provisioned_writes (get_table_option e k)))"
  by (simp add: ensure_provisioning_reads_def ensure_provisioning_writes_def Let_def
           split: prod.split)

text \<open>
  On the table over its ceilings and inside the band: the steps change nothing, the
  decisions return \<open>(True, 50)\<close> and \<open>(True, 25)\<close>.
\<close>

theorem units_never_over_the_ceiling_witness:
  "snd (snd (reads_threshold_steps band_env ''orders'' ''by_customer'' ''orders'')) >
     gsi_max_provisioned_reads (get_table_option band_env ''orders'') \<and>
   reads_threshold_steps band_env ''orders'' ''by_customer'' ''orders'' = ([], False, 100) \<and>
   snd (ensure_provisioning_reads band_env ''orders'' ''by_customer'' ''orders'') = (True, 50) \<and>
   snd (snd (writes_threshold_steps band_env ''orders'' ''by_customer'' ''orders'')) >
     gsi_max_provisioned_writes (get_table_option band_env ''orders'') \<and>
   writes_threshold_steps band_env ''orders'' ''by_customer'' ''orders'' = ([], False, 50) \<and>
   snd (ensure_provisioning_writes band_env ''orders'' ''by_customer'' ''orders'') = (True, 25)"
  using units_never_over_the_ceiling [of band_env "''orders''" "''by_customer''" "''orders''"]
  by (simp add: band_env_def example_env_def example_options_def
        reads_threshold_steps_def writes_threshold_steps_def)

subsection \<open>The maintenance window\<close>

text \<open>
  Claim C8, as amended. When one of the windows of the comma-separated string has no
  \<open>-\<close> in it, the check logs the error \<open>Malformatted maintenance window\<close> and answers
  \<open>False\<close> (not in a window), whatever the other windows and the clock are; it raises
  nothing.
\<close>

theorem window_without_separator_fails_closed:
  assumes "w \<in> set (split_on CHR '','' windows)" and "CHR ''-'' \<notin> set w"
  shows "is_maintenance_window e table_name windows =
           ([Log ERROR ''{0} - Malformatted maintenance window'' [PyStr table_name]], False)"
  using unpack_windows_malformed [OF assms] by (simp add: is_maintenance_window_def)

text \<open>At 09:30, inside the first window, with a second window that has no separator.\<close>

theorem window_without_separator_fails_closed_witness:
  "''0900'' \<in> set (split_on CHR '','' ''09:00-10:00,0900'') \<and>
   CHR ''-'' \<notin> set ''0900'' \<and>
   utcnow example_env = ''0930'' \<and>
   is_maintenance_window example_env ''orders'' ''09:00-10:00,0900'' =
     ([Log ERROR ''{0} - Malformatted maintenance window'' [PyStr ''orders'']], False)"
proof -
  have h1: "''0900'' \<in> set (split_on CHR '','' ''09:00-10:00,0900'')" by simp
  have h2: "CHR ''-'' \<notin> set ''0900''" by simp
  have h3: "utcnow example_env = ''0930''" by (simp add: example_env_def)
  show ?thesis
    using h1 h2 h3 window_without_separator_fails_closed [OF h1 h2, of example_env "''orders''"]
    by simp
qed

text \<open>
  Claim C8 as it was stated takes \<open>0900-1000\<close> for a malformed window. It has its
  separator, the colons are optional (line 273 takes them out), and at 09:30 the check
  answers \<open>True\<close> and logs nothing.
\<close>

theorem window_0900_1000_permits_counterexample:
  "utcnow example_env = ''0930'' \<and>
   is_maintenance_window example_env ''orders'' ''0900-1000'' = ([], True)"
  by code_simp

subsection \<open>The circuit breaker\<close>

text \<open>
  Claim C9: in a run in which the circuit breaker is open, \<open>ensure_provisioning\<close> lists
  no index, fetches no capacity, sends no update and logs no change. The breaker is open
  in a run when the option \<open>circuit_breaker_url\<close> is set and \<open>circuit_breaker.is_open()\<close>
  answers true; the trace is then the question to the breaker and one warning.
\<close>

theorem open_circuit_breaker_ends_the_run:
  assumes "circuit_breaker_url e \<noteq> []" and "circuit_breaker_is_open e"
  shows "ensure_provisioning fuel e table_name key_name =
           Some ([Request CircuitBreakerIsOpen, Log WARNING ''Circuit breaker is OPEN!'' []], None)"
  using assms by (simp add: ensure_provisioning_def)

text \<open>On the table behind the open breaker, which has an index to look at.\<close>

theorem open_circuit_breaker_ends_the_run_witness:
  "circuit_breaker_url breaker_env \<noteq> [] \<and> circuit_breaker_is_open breaker_env \<and>
   table_gsis breaker_env ''orders'' \<noteq> [] \<and>
   ensure_provisioning 1 breaker_env ''orders'' ''orders'' =
     Some ([Request CircuitBreakerIsOpen, Log WARNING ''Circuit breaker is OPEN!'' []], None)"
proof -
  have h1: "circuit_breaker_url breaker_env \<noteq> []"
    by (simp add: breaker_env_def example_env_def)
  have h2: "circuit_breaker_is_open breaker_env"
    by (simp add: breaker_env_def example_env_def)
  have h3: "table_gsis breaker_env ''orders'' \<noteq> []"
    by (simp add: breaker_env_def example_env_def)
  show ?thesis
    using h1 h2 h3 open_circuit_breaker_ends_the_run [OF h1 h2, of 1 "''orders''" "''orders''"]
    by simp
qed

subsection \<open>The coupled scale-down leaves the reads alone\<close>




end
